theory Spec2Isabelle
  imports Complex_Main
begin

section \<open>The ROI calculator of the CloudOps assessment framework\<close>

text \<open>
  A shallow embedding of \<^verbatim>\<open>src/calculators/roi_calculator.py\<close>.

  Numbers. The calculator works on Python numbers: the values of a metrics snapshot are
  ints or floats, the literals \<^verbatim>\<open>0.30\<close>, \<^verbatim>\<open>0.4\<close>, \<^verbatim>\<open>1.5\<close>, ... are floats.
  Every finite such value is a rational, and this development reads each of them as that
  rational and computes exactly: \<^verbatim>\<open>0.3\<close> is \<open>3/10\<close>, and \<open>+\<close>, \<open>-\<close>, \<open>*\<close>, \<open>/\<close> are
  those of \<^typ>\<open>rat\<close>. The rounding of binary floating point, overflow and NaN are not
  part of the model. The one non-finite value the code writes itself,
  \<^verbatim>\<open>float('inf')\<close>, is a constructor of its own.

  Errors. Python's \<^verbatim>\<open>/\<close> raises \<^verbatim>\<open>ZeroDivisionError\<close> on a zero divisor; every
  division of the source goes through \<open>truediv\<close>, and a function that divides returns a
  sum, \<open>Inl\<close> the exception.
\<close>

subsection \<open>Data\<close>

text \<open>A metrics snapshot is a \<^verbatim>\<open>Dict\<close> from metric names to numbers.\<close>

type_synonym metrics = "string \<rightharpoonup> rat"

text \<open>\<^verbatim>\<open>metrics.get(key, default)\<close>\<close>

definition get :: "metrics \<Rightarrow> string \<Rightarrow> rat \<Rightarrow> rat" where
  "get metrics key dflt = (case metrics key of None \<Rightarrow> dflt | Some v \<Rightarrow> v)"

datatype error = ZeroDivisionError

text \<open>A float that may be \<^verbatim>\<open>float('inf')\<close>.\<close>

datatype pyfloat = Finite rat | PosInf

definition truediv :: "rat \<Rightarrow> rat \<Rightarrow> error + rat" where
  "truediv a b = (if b = 0 then Inl ZeroDivisionError else Inr (a / b))"

text \<open>
  \<^verbatim>\<open>self.aws_pricing\<close>, the table set up in \<^verbatim>\<open>__init__\<close>: one constant for each
  \<^verbatim>\<open>self.aws_pricing[service][item]\<close> that is read.
\<close>

definition aws_pricing_cloudwatch_metrics :: rat where
  "aws_pricing_cloudwatch_metrics = 30 / 100"

definition aws_pricing_cloudwatch_logs_ingestion :: rat where
  "aws_pricing_cloudwatch_logs_ingestion = 50 / 100"

definition aws_pricing_cloudwatch_dashboard :: rat where
  "aws_pricing_cloudwatch_dashboard = 3"

definition aws_pricing_systems_manager_patch_management :: rat where
  "aws_pricing_systems_manager_patch_management = 9 / 100"

definition aws_pricing_systems_manager_inventory :: rat where
  "aws_pricing_systems_manager_inventory = 33 / 10000"

definition aws_pricing_systems_manager_automation :: rat where
  "aws_pricing_systems_manager_automation = 2 / 100"

definition aws_pricing_config_configuration_items :: rat where
  "aws_pricing_config_configuration_items = 3 / 1000"

definition aws_pricing_config_rules :: rat where
  "aws_pricing_config_rules = 1 / 1000"

lemmas aws_pricing_defs =
  aws_pricing_cloudwatch_metrics_def aws_pricing_cloudwatch_logs_ingestion_def
  aws_pricing_cloudwatch_dashboard_def aws_pricing_systems_manager_patch_management_def
  aws_pricing_systems_manager_inventory_def aws_pricing_systems_manager_automation_def
  aws_pricing_config_configuration_items_def aws_pricing_config_rules_def

text \<open>The dict returned by \<^verbatim>\<open>calculate_migration_roi\<close>, and its nested \<^verbatim>\<open>cost_breakdown\<close>.\<close>

record breakdown =
  infrastructure_savings :: rat
  productivity_gains :: rat
  risk_reduction :: rat

record roi_result =
  current_annual_cost :: rat
  aws_annual_cost :: rat
  annual_savings :: rat
  three_year_savings :: rat
  migration_cost :: rat
  three_year_roi :: rat
  break_even_months :: pyfloat
  operational_savings :: rat
  risk_mitigation_value :: rat
  cost_breakdown :: breakdown

subsection \<open>The cost components\<close>

text \<open>
  \<^verbatim>\<open>_calculate_current_costs\<close>: the four values of \<^verbatim>\<open>base_costs\<close>, summed by
  \<^verbatim>\<open>sum\<close> from 0 in the order of insertion.
\<close>

definition calculate_current_costs :: "metrics \<Rightarrow> rat" where
  "calculate_current_costs metrics =
     (let monitoring_tools = get metrics ''monitoring_tool_licenses'' 0;
          infrastructure = get metrics ''server_costs'' 0;
          staff_overhead = get metrics ''ops_staff_cost'' 0 * (3 / 10);
          downtime_cost = get metrics ''annual_downtime_hours'' 0 *
                          get metrics ''hourly_revenue_impact'' 0
      in 0 + monitoring_tools + infrastructure + staff_overhead + downtime_cost)"

text \<open>
  \<^verbatim>\<open>_calculate_aws_costs\<close>: \<^verbatim>\<open>total_cost\<close> starts at 0 and each of the three
  \<^verbatim>\<open>if tag in services\<close> blocks adds to it.
\<close>

definition calculate_aws_costs :: "metrics \<Rightarrow> string list \<Rightarrow> rat" where
  "calculate_aws_costs metrics services =
     (let total_cost = 0;
          total_cost =
            (if ''cloudwatch'' \<in> set services then
               (let metrics_count = get metrics ''total_metrics'' 100;
                    log_volume_gb = get metrics ''log_volume_gb_monthly'' 50;
                    dashboards = get metrics ''dashboards'' 10
                in total_cost +
                   (metrics_count * aws_pricing_cloudwatch_metrics * 12 +
                    log_volume_gb * aws_pricing_cloudwatch_logs_ingestion * 12 +
                    dashboards * aws_pricing_cloudwatch_dashboard * 12))
             else total_cost);
          total_cost =
            (if ''systems_manager'' \<in> set services then
               (let instances = get metrics ''total_instances'' 100;
                    automations = get metrics ''monthly_automations'' 50
                in total_cost +
                   (instances * aws_pricing_systems_manager_patch_management * 12 +
                    instances * aws_pricing_systems_manager_inventory * 12 +
                    automations * aws_pricing_systems_manager_automation * 12))
             else total_cost);
          total_cost =
            (if ''config'' \<in> set services then
               (let config_items = get metrics ''configuration_items'' 500;
                    rule_evaluations = get metrics ''compliance_checks_monthly'' 1000
                in total_cost +
                   (config_items * aws_pricing_config_configuration_items * 12 +
                    rule_evaluations * aws_pricing_config_rules * 12))
             else total_cost)
      in total_cost)"

text \<open>\<^verbatim>\<open>_calculate_operational_savings\<close>\<close>

definition calculate_operational_savings :: "metrics \<Rightarrow> rat" where
  "calculate_operational_savings metrics =
     (let current_mttr = get metrics ''mean_time_to_resolution_hours'' 4;
          projected_mttr = current_mttr * (4 / 10);
          incident_frequency = get metrics ''monthly_incidents'' 20;
          avg_engineer_cost_per_hour = get metrics ''engineer_hourly_cost'' 100;
          monthly_savings =
            incident_frequency * (current_mttr - projected_mttr) * avg_engineer_cost_per_hour
      in monthly_savings * 12)"

text \<open>\<^verbatim>\<open>_calculate_risk_mitigation\<close>\<close>

definition calculate_risk_mitigation :: "metrics \<Rightarrow> rat" where
  "calculate_risk_mitigation metrics =
     (let compliance_violations = get metrics ''annual_compliance_violations'' 2;
          avg_violation_cost = get metrics ''compliance_violation_cost'' 50000;
          compliance_improvement = 8 / 10;
          security_incidents = get metrics ''annual_security_incidents'' 1;
          avg_security_cost = get metrics ''security_incident_cost'' 100000;
          security_improvement = 7 / 10
      in compliance_violations * avg_violation_cost * compliance_improvement +
         security_incidents * avg_security_cost * security_improvement)"

text \<open>
  \<^verbatim>\<open>_calculate_migration_costs\<close>: \<^verbatim>\<open>len(services)\<close> is the length of the list, so a
  tag listed twice counts twice.
\<close>

definition calculate_migration_costs :: "metrics \<Rightarrow> string list \<Rightarrow> rat" where
  "calculate_migration_costs metrics services =
     (let base_migration_cost = 50000;
          complexity_multiplier = 1;
          complexity_multiplier =
            (if get metrics ''total_instances'' 0 > 500
             then complexity_multiplier * (15 / 10) else complexity_multiplier);
          complexity_multiplier =
            (if length services > 2
             then complexity_multiplier * (12 / 10) else complexity_multiplier);
          training_cost = get metrics ''ops_team_size'' 5 * 2000
      in base_migration_cost * complexity_multiplier + training_cost)"

subsection \<open>The ROI analysis\<close>

text \<open>
  \<^verbatim>\<open>calculate_migration_roi\<close>. The argument \<^verbatim>\<open>timeline_months\<close> is accepted and never
  read. The three divisions are those of lines 71 and 73 of the source, in the order
  Python evaluates them.
\<close>

definition calculate_migration_roi :: "metrics \<Rightarrow> string list \<Rightarrow> int \<Rightarrow> error + roi_result" where
  "calculate_migration_roi current_metrics target_services timeline_months =
     (let current_annual_cost = calculate_current_costs current_metrics;
          aws_annual_cost = calculate_aws_costs current_metrics target_services;
          operational_savings = calculate_operational_savings current_metrics;
          risk_mitigation = calculate_risk_mitigation current_metrics;
          migration_cost = calculate_migration_costs current_metrics target_services;
          annual_savings =
            current_annual_cost - aws_annual_cost + operational_savings + risk_mitigation;
          three_year_savings = annual_savings * 3
      in case truediv (three_year_savings - migration_cost) migration_cost of
           Inl e \<Rightarrow> Inl e
         | Inr roi \<Rightarrow>
             (case (if annual_savings > 0 then
                      (case truediv annual_savings 12 of
                         Inl e \<Rightarrow> Inl e
                       | Inr monthly \<Rightarrow>
                           (case truediv migration_cost monthly of
                              Inl e \<Rightarrow> Inl e
                            | Inr months \<Rightarrow> Inr (Finite months)))
                    else Inr PosInf) of
                Inl e \<Rightarrow> Inl e
              | Inr break_even \<Rightarrow>
                  Inr \<lparr>current_annual_cost = current_annual_cost,
                       aws_annual_cost = aws_annual_cost,
                       annual_savings = annual_savings,
                       three_year_savings = three_year_savings,
                       migration_cost = migration_cost,
                       three_year_roi = roi,
                       break_even_months = break_even,
                       operational_savings = operational_savings,
                       risk_mitigation_value = risk_mitigation,
                       cost_breakdown =
                         \<lparr>infrastructure_savings = current_annual_cost - aws_annual_cost,
                          productivity_gains = operational_savings,
                          risk_reduction = risk_mitigation\<rparr>\<rparr>))"

text \<open>
  \<^verbatim>\<open>generate_executive_summary\<close> renders the result as text; its last line is
  \<^verbatim>\<open>Business Case:\<close> followed by the value of the conditional expression over
  \<^verbatim>\<open>roi_data['three_year_roi']\<close> that is modelled here.
\<close>

definition business_case :: "roi_result \<Rightarrow> string" where
  "business_case roi_data =
     (if three_year_roi roi_data > 1 then ''STRONG''
      else if three_year_roi roi_data > 3 / 10 then ''MODERATE''
      else ''WEAK'')"

subsection \<open>The end-to-end scenario\<close>

definition scenario_metrics :: metrics where
  "scenario_metrics =
     [''total_instances'' \<mapsto> 100,
      ''monitoring_tool_licenses'' \<mapsto> 27600,
      ''ops_staff_cost'' \<mapsto> 120000,
      ''annual_downtime_hours'' \<mapsto> 48,
      ''hourly_revenue_impact'' \<mapsto> 10000,
      ''monthly_incidents'' \<mapsto> 20,
      ''mean_time_to_resolution_hours'' \<mapsto> 4,
      ''engineer_hourly_cost'' \<mapsto> 100,
      ''annual_compliance_violations'' \<mapsto> 2,
      ''compliance_violation_cost'' \<mapsto> 50000,
      ''annual_security_incidents'' \<mapsto> 1,
      ''security_incident_cost'' \<mapsto> 100000,
      ''ops_team_size'' \<mapsto> 5]"

section \<open>Evaluation of the scenario\<close>

lemma scenario_current_costs: "calculate_current_costs scenario_metrics = 543600"
  by (simp add: calculate_current_costs_def get_def scenario_metrics_def)

lemma scenario_operational_savings: "calculate_operational_savings scenario_metrics = 57600"
  by (simp add: calculate_operational_savings_def get_def scenario_metrics_def)

lemma scenario_risk_mitigation: "calculate_risk_mitigation scenario_metrics = 150000"
  by (simp add: calculate_risk_mitigation_def get_def scenario_metrics_def)

lemma scenario_migration_costs: "calculate_migration_costs scenario_metrics [tag] = 60000"
  by (simp add: calculate_migration_costs_def get_def scenario_metrics_def)

lemma scenario_aws_costs_cloudwatch:
  "calculate_aws_costs scenario_metrics [''cloudwatch''] = 1020"
  by (simp add: calculate_aws_costs_def get_def scenario_metrics_def aws_pricing_defs)

lemma scenario_aws_costs_literal:
  "calculate_aws_costs scenario_metrics [''cloudwatch-equivalent''] = 0"
  by (simp add: calculate_aws_costs_def)

lemma scenario_roi_cloudwatch:
  "calculate_migration_roi scenario_metrics [''cloudwatch''] t =
     Inr \<lparr>current_annual_cost = 543600, aws_annual_cost = 1020, annual_savings = 750180,
          three_year_savings = 2250540, migration_cost = 60000,
          three_year_roi = (750180 * 3 - 60000) / 60000,
          break_even_months = Finite (60000 / (750180 / 12)),
          operational_savings = 57600, risk_mitigation_value = 150000,
          cost_breakdown = \<lparr>infrastructure_savings = 542580, productivity_gains = 57600,
                            risk_reduction = 150000\<rparr>\<rparr>"
  by (simp add: calculate_migration_roi_def truediv_def scenario_current_costs
      scenario_operational_savings scenario_risk_mitigation scenario_migration_costs
      scenario_aws_costs_cloudwatch)

text \<open>
  Claim C1, as stated: on the scenario snapshot with
  \<^verbatim>\<open>target_services = ["cloudwatch-equivalent"]\<close> the target-platform annual cost is
  1020 and the annual savings are 750180. The code tests for the tag \<^verbatim>\<open>'cloudwatch'\<close>;
  the string \<^verbatim>\<open>'cloudwatch-equivalent'\<close> is none of its three tags, so no block of
  \<^verbatim>\<open>_calculate_aws_costs\<close> runs: the target-platform cost is 0 and the annual savings
  are 751200.
\<close>

theorem scenario_literal_tag_counterexample:
  "calculate_aws_costs scenario_metrics [''cloudwatch-equivalent''] \<noteq> 1020 \<and>
   calculate_migration_roi scenario_metrics [''cloudwatch-equivalent''] 36 =
     Inr \<lparr>current_annual_cost = 543600, aws_annual_cost = 0, annual_savings = 751200,
          three_year_savings = 2253600, migration_cost = 60000,
          three_year_roi = (751200 * 3 - 60000) / 60000,
          break_even_months = Finite (60000 / (751200 / 12)),
          operational_savings = 57600, risk_mitigation_value = 150000,
          cost_breakdown = \<lparr>infrastructure_savings = 543600, productivity_gains = 57600,
                            risk_reduction = 150000\<rparr>\<rparr>"
  by (simp add: calculate_migration_roi_def truediv_def scenario_current_costs
      scenario_operational_savings scenario_risk_mitigation scenario_migration_costs
      scenario_aws_costs_literal)

text \<open>
  Claim C1, amended: on the scenario snapshot with \<^verbatim>\<open>target_services = ["cloudwatch"]\<close>
  (the tag the code recognises) and the default horizon of 36 months,
  \<^verbatim>\<open>calculate_migration_roi\<close> returns target-platform annual cost 1020, current annual
  cost 543600, operational savings 57600, risk mitigation 150000, annual savings 750180,
  migration cost 60000, three-year ROI \<open>(750180 * 3 - 60000) / 60000\<close> and break-even
  months \<open>60000 / (750180 / 12)\<close>.
\<close>

theorem scenario_cloudwatch_roi:
  "calculate_migration_roi scenario_metrics [''cloudwatch''] 36 =
     Inr \<lparr>current_annual_cost = 543600, aws_annual_cost = 1020, annual_savings = 750180,
          three_year_savings = 2250540, migration_cost = 60000,
          three_year_roi = (750180 * 3 - 60000) / 60000,
          break_even_months = Finite (60000 / (750180 / 12)),
          operational_savings = 57600, risk_mitigation_value = 150000,
          cost_breakdown = \<lparr>infrastructure_savings = 542580, productivity_gains = 57600,
                            risk_reduction = 150000\<rparr>\<rparr>"
  by (rule scenario_roi_cloudwatch)

section \<open>The shape of every result\<close>

text \<open>
  The horizon is never read; the call raises exactly when the migration cost is 0 (the
  divisor of line 71), and otherwise returns the record of the source's last statement.
\<close>

lemma truediv_zero: "truediv a 0 = Inl ZeroDivisionError"
  by (simp add: truediv_def)

lemma roi_raises:
  "calculate_migration_costs m s = 0 \<Longrightarrow> calculate_migration_roi m s t = Inl ZeroDivisionError"
  by (simp add: calculate_migration_roi_def truediv_zero Let_def)

lemma roi_returns:
  assumes "calculate_migration_costs m s \<noteq> 0"
  shows "calculate_migration_roi m s t =
     Inr \<lparr>current_annual_cost = calculate_current_costs m,
          aws_annual_cost = calculate_aws_costs m s,
          annual_savings = calculate_current_costs m - calculate_aws_costs m s +
            calculate_operational_savings m + calculate_risk_mitigation m,
          three_year_savings = (calculate_current_costs m - calculate_aws_costs m s +
            calculate_operational_savings m + calculate_risk_mitigation m) * 3,
          migration_cost = calculate_migration_costs m s,
          three_year_roi = ((calculate_current_costs m - calculate_aws_costs m s +
            calculate_operational_savings m + calculate_risk_mitigation m) * 3 -
            calculate_migration_costs m s) / calculate_migration_costs m s,
          break_even_months =
            (if calculate_current_costs m - calculate_aws_costs m s +
                calculate_operational_savings m + calculate_risk_mitigation m > 0
             then Finite (calculate_migration_costs m s /
               ((calculate_current_costs m - calculate_aws_costs m s +
                 calculate_operational_savings m + calculate_risk_mitigation m) / 12))
             else PosInf),
          operational_savings = calculate_operational_savings m,
          risk_mitigation_value = calculate_risk_mitigation m,
          cost_breakdown =
            \<lparr>infrastructure_savings = calculate_current_costs m - calculate_aws_costs m s,
             productivity_gains = calculate_operational_savings m,
             risk_reduction = calculate_risk_mitigation m\<rparr>\<rparr>"
  using assms by (simp add: calculate_migration_roi_def truediv_def Let_def)


section \<open>The horizon and the three-year figures\<close>

text \<open>
  Claim C2: for every metrics snapshot, every target-service list and any two values of
  \<^verbatim>\<open>timeline_months\<close>, \<^verbatim>\<open>calculate_migration_roi\<close> has the same outcome, and in
  every result \<^verbatim>\<open>three_year_savings\<close> is exactly 3 times \<^verbatim>\<open>annual_savings\<close>.
\<close>

theorem timeline_months_unused:
  "calculate_migration_roi m s t1 = calculate_migration_roi m s t2 \<and>
   (\<forall>r. calculate_migration_roi m s t1 = Inr r \<longrightarrow>
      three_year_savings r = 3 * annual_savings r)"
proof (cases "calculate_migration_costs m s = 0")
  case True
  then show ?thesis
    by (simp add: roi_raises)
next
  case False
  then show ?thesis
    by (auto simp add: roi_returns)
qed

text \<open>
  Witness for C2: the scenario at horizons 12 and 36 returns one and the same result.
\<close>

theorem timeline_months_unused_witness:
  "calculate_migration_roi scenario_metrics [''cloudwatch''] 12 =
     calculate_migration_roi scenario_metrics [''cloudwatch''] 36 \<and>
   (\<exists>r. calculate_migration_roi scenario_metrics [''cloudwatch''] 12 = Inr r \<and>
      three_year_savings r = 3 * annual_savings r)"
  using timeline_months_unused [of scenario_metrics "[''cloudwatch'']" 12 36]
  by (simp add: scenario_roi_cloudwatch)

section \<open>Break-even months\<close>




section \<open>The business-case label\<close>

text \<open>
  Claim C4: the label is \<^verbatim>\<open>STRONG\<close> exactly when the three-year ROI ratio is
  strictly greater than 1.0, \<^verbatim>\<open>MODERATE\<close> exactly when it is at most 1.0 and strictly
  greater than 0.3, and \<^verbatim>\<open>WEAK\<close> otherwise; a ratio of exactly 1.0 yields
  \<^verbatim>\<open>MODERATE\<close> and a ratio of exactly 0.3 yields \<^verbatim>\<open>WEAK\<close>.
\<close>

theorem business_case_thresholds:
  "(business_case r = ''STRONG'' \<longleftrightarrow> 1 < three_year_roi r) \<and>
   (business_case r = ''MODERATE'' \<longleftrightarrow> three_year_roi r \<le> 1 \<and> 3 / 10 < three_year_roi r) \<and>
   (business_case r = ''WEAK'' \<longleftrightarrow> three_year_roi r \<le> 3 / 10) \<and>
   business_case (r\<lparr>three_year_roi := 1\<rparr>) = ''MODERATE'' \<and>
   business_case (r\<lparr>three_year_roi := 3 / 10\<rparr>) = ''WEAK''"
  by (auto simp add: business_case_def)

section \<open>Target-platform cost by service tag\<close>

text \<open>
  Claim C5: for every snapshot and a service list containing only the tag
  \<^verbatim>\<open>systems_manager\<close>, the target-platform annual cost is exactly
  instances * patch rate * 12 + instances * inventory rate * 12 + automations * run rate * 12,
  with nothing from the \<^verbatim>\<open>cloudwatch\<close> or \<^verbatim>\<open>config\<close> blocks; and for a list with
  none of the three recognised tags the cost is exactly 0.
\<close>

theorem systems_manager_only_cost:
  "(set services = {''systems_manager''} \<longrightarrow>
      calculate_aws_costs m services =
        get m ''total_instances'' 100 * aws_pricing_systems_manager_patch_management * 12 +
        get m ''total_instances'' 100 * aws_pricing_systems_manager_inventory * 12 +
        get m ''monthly_automations'' 50 * aws_pricing_systems_manager_automation * 12) \<and>
   (''cloudwatch'' \<notin> set services \<and> ''systems_manager'' \<notin> set services \<and>
    ''config'' \<notin> set services \<longrightarrow> calculate_aws_costs m services = 0)"
  by (simp add: calculate_aws_costs_def Let_def)

text \<open>
  Witness for C5: a snapshot that also carries \<^verbatim>\<open>total_metrics\<close> and
  \<^verbatim>\<open>configuration_items\<close>, which the unselected blocks would read, and a list of two
  unrecognised tags.
\<close>

theorem systems_manager_only_cost_witness:
  "calculate_aws_costs [''total_instances'' \<mapsto> 200, ''monthly_automations'' \<mapsto> 10,
       ''total_metrics'' \<mapsto> 7, ''configuration_items'' \<mapsto> 9] [''systems_manager''] =
     200 * (9 / 100) * 12 + 200 * (33 / 10000) * 12 + 10 * (2 / 100) * 12 \<and>
   calculate_aws_costs scenario_metrics [''cloudwatch-equivalent'', ''ec2''] = 0"
  using systems_manager_only_cost [of "[''systems_manager'']"
      "[''total_instances'' \<mapsto> 200, ''monthly_automations'' \<mapsto> 10,
        ''total_metrics'' \<mapsto> 7, ''configuration_items'' \<mapsto> 9]"]
    systems_manager_only_cost [of "[''cloudwatch-equivalent'', ''ec2'']" scenario_metrics]
  by (simp add: get_def aws_pricing_defs)

section \<open>Migration cost\<close>



section \<open>The defaults\<close>

text \<open>
  Claim C7: for the empty snapshot the defaults give current annual cost 0; with
  \<^verbatim>\<open>cloudwatch\<close> selected, target-platform annual cost
  100 * 0.30 * 12 + 50 * 0.50 * 12 + 10 * 3.00 * 12 = 1020; operational savings
  20 * (4 - 1.6) * 100 * 12 = 57600; risk mitigation
  2 * 50000 * 0.8 + 1 * 100000 * 0.7 = 150000; and with a single listed service,
  migration cost 50000 + 5 * 2000 = 60000. The last conjunct is the whole result of
  \<^verbatim>\<open>calculate_migration_roi\<close> on the empty snapshot.
\<close>

theorem empty_snapshot_defaults:
  "calculate_current_costs Map.empty = 0 \<and>
   calculate_aws_costs Map.empty [''cloudwatch''] =
     100 * (30 / 100) * 12 + 50 * (50 / 100) * 12 + 10 * 3 * 12 \<and>
   calculate_aws_costs Map.empty [''cloudwatch''] = 1020 \<and>
   calculate_operational_savings Map.empty = 20 * (4 - 16 / 10) * 100 * 12 \<and>
   calculate_operational_savings Map.empty = 57600 \<and>
   calculate_risk_mitigation Map.empty = 2 * 50000 * (8 / 10) + 1 * 100000 * (7 / 10) \<and>
   calculate_risk_mitigation Map.empty = 150000 \<and>
   calculate_migration_costs Map.empty [tag] = 50000 + 5 * 2000 \<and>
   calculate_migration_costs Map.empty [tag] = 60000 \<and>
   calculate_migration_roi Map.empty [''cloudwatch''] t =
     Inr \<lparr>current_annual_cost = 0, aws_annual_cost = 1020, annual_savings = 206580,
          three_year_savings = 619740, migration_cost = 60000,
          three_year_roi = (619740 - 60000) / 60000,
          break_even_months = Finite (60000 / (206580 / 12)),
          operational_savings = 57600, risk_mitigation_value = 150000,
          cost_breakdown = \<lparr>infrastructure_savings = - 1020, productivity_gains = 57600,
                            risk_reduction = 150000\<rparr>\<rparr>"
  by (simp add: calculate_migration_roi_def truediv_def calculate_current_costs_def
      calculate_aws_costs_def calculate_operational_savings_def calculate_risk_mitigation_def
      calculate_migration_costs_def get_def aws_pricing_defs)

section \<open>The cost breakdown\<close>

text \<open>
  Claim C8: in every result, \<^verbatim>\<open>annual_savings\<close> is the sum of the three
  \<^verbatim>\<open>cost_breakdown\<close> components, and \<^verbatim>\<open>infrastructure_savings\<close> is
  \<^verbatim>\<open>current_annual_cost - aws_annual_cost\<close>. A result exists whenever the migration
  cost is not 0.
\<close>

theorem annual_savings_breakdown:
  "(calculate_migration_costs m s \<noteq> 0 \<longrightarrow> (\<exists>r. calculate_migration_roi m s t = Inr r)) \<and>
   (\<forall>r. calculate_migration_roi m s t = Inr r \<longrightarrow>
      annual_savings r =
        infrastructure_savings (cost_breakdown r) + productivity_gains (cost_breakdown r) +
        risk_reduction (cost_breakdown r) \<and>
      infrastructure_savings (cost_breakdown r) = current_annual_cost r - aws_annual_cost r)"
proof (cases "calculate_migration_costs m s = 0")
  case True
  then show ?thesis
    by (simp add: roi_raises)
next
  case False
  then show ?thesis
    by (auto simp add: roi_returns)
qed

text \<open>
  Witness for C8: the scenario, whose annual savings 750180 are 542580 + 57600 + 150000.
\<close>

theorem annual_savings_breakdown_witness:
  "calculate_migration_costs scenario_metrics [''cloudwatch''] \<noteq> 0 \<and>
   (\<exists>r. calculate_migration_roi scenario_metrics [''cloudwatch''] 36 = Inr r \<and>
      annual_savings r = 542580 + 57600 + 150000 \<and>
      annual_savings r =
        infrastructure_savings (cost_breakdown r) + productivity_gains (cost_breakdown r) +
        risk_reduction (cost_breakdown r) \<and>
      infrastructure_savings (cost_breakdown r) = current_annual_cost r - aws_annual_cost r)"
  using annual_savings_breakdown [of scenario_metrics "[''cloudwatch'']" 36]
  by (simp add: scenario_roi_cloudwatch scenario_migration_costs)

section \<open>No division by zero for a non-negative team size\<close>

lemma team_size_nonneg:
  "\<forall>v. m ''ops_team_size'' = Some v \<longrightarrow> 0 \<le> v \<Longrightarrow> 0 \<le> get m ''ops_team_size'' 5"
  by (simp add: get_def split: option.splits)

lemma migration_costs_lower_bound:
  assumes "0 \<le> get m ''ops_team_size'' 5"
  shows "50000 \<le> calculate_migration_costs m s"
proof -
  have "(50000::rat) \<le> 50000 * ((if 500 < get m ''total_instances'' 0 then 15 / 10 else 1) *
      (if 2 < length s then 12 / 10 else 1))"
    by simp
  moreover have "0 \<le> get m ''ops_team_size'' 5 * 2000"
    using assms by simp
  ultimately show ?thesis
    by (simp add: calculate_migration_costs_def Let_def)
qed

text \<open>
  Claim C9: for every snapshot in which \<^verbatim>\<open>ops_team_size\<close>, when present, is
  non-negative, the migration cost is at least 50000, hence strictly positive, and the
  division that produces \<^verbatim>\<open>three_year_roi\<close> does not divide by zero: the call
  returns a result.
\<close>

theorem migration_cost_positive:
  assumes "\<forall>v. m ''ops_team_size'' = Some v \<longrightarrow> 0 \<le> v"
  shows "50000 \<le> calculate_migration_costs m s \<and> 0 < calculate_migration_costs m s \<and>
    (\<exists>r. calculate_migration_roi m s t = Inr r \<and>
       migration_cost r = calculate_migration_costs m s \<and>
       three_year_roi r = (three_year_savings r - migration_cost r) / migration_cost r)"
proof -
  have lb: "50000 \<le> calculate_migration_costs m s"
    using assms by (intro migration_costs_lower_bound team_size_nonneg)
  then have "calculate_migration_costs m s \<noteq> 0"
    by simp
  then show ?thesis
    using lb by (simp add: roi_returns)
qed

text \<open>
  Witness for C9: the scenario, with a team of 5.
\<close>

theorem migration_cost_positive_witness:
  "scenario_metrics ''ops_team_size'' = Some 5 \<and>
   50000 \<le> calculate_migration_costs scenario_metrics [''cloudwatch''] \<and>
   (\<exists>r. calculate_migration_roi scenario_metrics [''cloudwatch''] 36 = Inr r \<and>
      three_year_roi r = (2250540 - 60000) / 60000)"
proof -
  have h: "\<forall>v. scenario_metrics ''ops_team_size'' = Some v \<longrightarrow> 0 \<le> v"
    by (simp add: scenario_metrics_def)
  have "scenario_metrics ''ops_team_size'' = Some 5"
    by (simp add: scenario_metrics_def)
  then show ?thesis
    using migration_cost_positive [of scenario_metrics "[''cloudwatch'']" 36, OF h]
    by (simp add: scenario_roi_cloudwatch)
qed

section \<open>The two defaults of the instance count\<close>

text \<open>
  Claim C10: when \<^verbatim>\<open>total_instances\<close> is absent, the systems-manager cost is
  computed as if it were 100 (and not as if it were 0), the complexity test of the
  migration cost as if it were 0, so the 1.5 multiplier is not applied.
\<close>

theorem total_instances_defaults_differ:
  assumes "m ''total_instances'' = None"
  shows "calculate_aws_costs m s = calculate_aws_costs (m(''total_instances'' \<mapsto> 100)) s \<and>
    (''systems_manager'' \<in> set s \<longrightarrow>
       calculate_aws_costs m s \<noteq> calculate_aws_costs (m(''total_instances'' \<mapsto> 0)) s) \<and>
    calculate_migration_costs m s = calculate_migration_costs (m(''total_instances'' \<mapsto> 0)) s \<and>
    calculate_migration_costs m s =
      50000 * (if 2 < length s then 12 / 10 else 1) + get m ''ops_team_size'' 5 * 2000"
  using assms
  by (simp add: calculate_aws_costs_def calculate_migration_costs_def get_def Let_def
      aws_pricing_defs)

text \<open>
  Witness for C10: the empty snapshot with the systems-manager tag.
\<close>

theorem total_instances_defaults_differ_witness:
  "(Map.empty :: metrics) ''total_instances'' = None \<and>
   calculate_aws_costs Map.empty [''systems_manager''] =
     100 * (9 / 100) * 12 + 100 * (33 / 10000) * 12 + 50 * (2 / 100) * 12 \<and>
   calculate_aws_costs Map.empty [''systems_manager''] \<noteq>
     calculate_aws_costs [''total_instances'' \<mapsto> 0] [''systems_manager''] \<and>
   calculate_migration_costs Map.empty [''systems_manager''] = 60000"
  using total_instances_defaults_differ [of Map.empty "[''systems_manager'']"]
  by (simp add: calculate_aws_costs_def get_def aws_pricing_defs)

end
